theory Spec2Isabelle
  imports Complex_Main
begin

section \<open>Numbers and identifiers\<close>

text \<open>
  The program is JavaScript. Its numbers are modelled exactly: counts, scores and
  timestamps as \<open>int\<close> or \<open>nat\<close>, every other number as a rational. A column or
  property that may be \<open>null\<close> or absent is an \<open>option\<close>. The one non-number the
  code can produce, \<open>NaN\<close> from \<open>0 / 0\<close> in the weight tuner, is \<open>None\<close> there.
\<close>

type_synonym team_id = string

text \<open>\<open>Math.round\<close>: the nearest integer, a tie going up.\<close>

definition js_round :: "rat \<Rightarrow> int" where
  "js_round x = \<lfloor>x + 1 / 2\<rfloor>"

text \<open>\<open>Math.round(x * 10) / 10\<close>, the one-decimal rounding of the adapter.\<close>

definition round1 :: "rat \<Rightarrow> rat" where
  "round1 x = of_int (js_round (x * 10)) / 10"

text \<open>\<open>x.toFixed(k)\<close> read back as a number, for the non-negative values it is used on.\<close>

definition toFixed :: "nat \<Rightarrow> rat \<Rightarrow> rat" where
  "toFixed k x = of_int \<lfloor>x * 10 ^ k + 1 / 2\<rfloor> / 10 ^ k"

text \<open>
  A score read from the store is an integer or \<open>null\<close>. In \<open>a > b\<close>, \<open>a - b\<close> and
  \<open>a || 0\<close> JavaScript reads \<open>null\<close> as 0.
\<close>

definition to_num :: "int option \<Rightarrow> int" where
  "to_num v = (case v of None \<Rightarrow> 0 | Some n \<Rightarrow> n)"

section \<open>Feature adapter\<close>

text \<open>A game as \<open>transformGame\<close> returns it; \<open>timestamp\<close> is in seconds.\<close>

record game =
  timestamp :: int
  home_team :: team_id
  away_team :: team_id
  home_score :: "int option"
  away_score :: "int option"

text \<open>\<open>new Date(g.date).getTime()\<close>: the game's time in milliseconds.\<close>

definition date_ms :: "game \<Rightarrow> int" where
  "date_ms g = timestamp g * 1000"

subsection \<open>Travel and fatigue\<close>

record fatigue_snapshot =
  days_rest :: int
  games_in_last_week :: int
  back_to_back :: bool
  fatigue_score :: int
  estimated_miles :: int
  time_zones_crossed :: int

text \<open>
  \<open>calculateTravelFatigue\<close>, on the list that \<open>getTeamRecentGames(teamId, 5)\<close>
  returned (most recent first) and the reference time in milliseconds
  (\<open>currentGameDate\<close>, or the clock when it is absent).
\<close>

definition calculateTravelFatigue :: "game list \<Rightarrow> int \<Rightarrow> fatigue_snapshot" where
  "calculateTravelFatigue recentGames currentTime =
    (case recentGames of
       [] \<Rightarrow> \<lparr>days_rest = 7, games_in_last_week = 0, back_to_back = False,
              fatigue_score = 0, estimated_miles = 0, time_zones_crossed = 0\<rparr>
     | lastGame # _ \<Rightarrow>
        (let lastGameTime = date_ms lastGame;
             daysSinceLastGame = (currentTime - lastGameTime) div (1000 * 60 * 60 * 24);
             oneWeekAgo = currentTime - 7 * 24 * 60 * 60 * 1000;
             gamesLastWeek = int (length (filter (\<lambda>g. date_ms g > oneWeekAgo) recentGames));
             backToBack = (daysSinceLastGame \<le> 1);
             fatigueScore =
               (if daysSinceLastGame = 0 then 10
                else if daysSinceLastGame = 1 then 7
                else if daysSinceLastGame = 2 then 4
                else if daysSinceLastGame = 3 then 2
                else 0);
             fatigueScore = fatigueScore + min 3 (gamesLastWeek - 2)
         in \<lparr>days_rest = daysSinceLastGame, games_in_last_week = gamesLastWeek,
              back_to_back = backToBack,
              fatigue_score = min 10 (max 0 fatigueScore),
              estimated_miles = 0, time_zones_crossed = 0\<rparr>))"

text \<open>
  The fatigue rule in the words of the specification: the step table on the days of
  rest, one point for each game beyond two in the trailing week and nothing below
  that, the total kept within 0 and 10.
\<close>

definition spec_fatigue_score :: "int \<Rightarrow> int \<Rightarrow> int" where
  "spec_fatigue_score days gamesWeek =
    (let base = (if days = 0 then 10 else if days = 1 then 7 else if days = 2 then 4
                 else if days = 3 then 2 else 0);
         extra = (if gamesWeek > 2 then gamesWeek - 2 else 0)
     in min 10 (max 0 (base + extra)))"

text \<open>
  The score as a function of the two figures of the snapshot it is returned with: the
  points of the \<open>if\<close> chain, and the clamped total.
\<close>

definition rest_points :: "int \<Rightarrow> int" where
  "rest_points d =
    (if d = 0 then 10 else if d = 1 then 7 else if d = 2 then 4 else if d = 3 then 2 else 0)"

definition fatigue_of :: "int \<Rightarrow> int \<Rightarrow> int" where
  "fatigue_of d g = min 10 (max 0 (rest_points d + min 3 (g - 2)))"

text \<open>A team whose only finished game of late was played at second 1700000000.\<close>

definition one_game :: "game list" where
  "one_game = [\<lparr>timestamp = 1700000000, home_team = ''nba-bos'', away_team = ''nba-lal'',
                home_score = Some 110, away_score = Some 101\<rparr>]"

subsection \<open>Team form\<close>













section \<open>Prediction engine\<close>

text \<open>
  The feature vector that \<open>generatePrediction\<close> assembles. Every numeric entry is a
  number here; \<open>sharp_money_indicator\<close> is the string the betting-trends step returns.
\<close>

record features =
  home_team_form :: rat
  away_team_form :: rat
  home_player_advantage :: rat
  away_player_advantage :: rat
  home_injury_impact :: rat
  away_injury_impact :: rat
  home_fatigue :: rat
  away_fatigue :: rat
  h2h_advantage :: rat
  home_court_advantage :: rat
  rest_advantage :: rat
  weather_impact :: rat
  home_sentiment :: rat
  away_sentiment :: rat
  sharp_money_indicator :: string
  line_value :: rat

datatype side = Home | Away

text \<open>
  The first part of \<open>calculateWeightedPrediction\<close>: the variable \<open>homeAdvantage\<close>,
  assigned 50, increased statement by statement, and clamped by the last assignment.
\<close>

definition homeAdvantage :: "features \<Rightarrow> rat" where
  "homeAdvantage f =
    (let h = 50;
         h = h + (home_team_form f - away_team_form f) * 3;
         h = h + (home_player_advantage f - away_player_advantage f) * 4;
         h = h + (away_injury_impact f - home_injury_impact f) * (36 / 10);
         h = h + (away_fatigue f - home_fatigue f) * (24 / 10);
         h = h + h2h_advantage f * 2;
         h = h + home_court_advantage f * (16 / 10);
         h = h + rest_advantage f * (14 / 10);
         h = h + weather_impact f * (6 / 10);
         h = h + (home_sentiment f - away_sentiment f) * (4 / 10);
         h = (if sharp_money_indicator f = ''home'' then h + 10
              else if sharp_money_indicator f = ''away'' then h - 10
              else h);
         h = max 0 (min 100 h)
     in h)"

text \<open>What the sharp-money branch adds.\<close>

definition sharp_money_points :: "features \<Rightarrow> rat" where
  "sharp_money_points f =
    (if sharp_money_indicator f = ''home'' then 10
     else if sharp_money_indicator f = ''away'' then - 10 else 0)"

definition homeWinProb :: "features \<Rightarrow> rat" where
  "homeWinProb f = homeAdvantage f / 100"

definition awayWinProb :: "features \<Rightarrow> rat" where
  "awayWinProb f = 1 - homeWinProb f"

text \<open>\<open>String.prototype.toLowerCase\<close> on ASCII text.\<close>

definition lower_char :: "char \<Rightarrow> char" where
  "lower_char c =
    (let n = (of_char c :: nat) in if 65 \<le> n \<and> n \<le> 90 then char_of (n + 32) else c)"

definition toLowerCase :: "string \<Rightarrow> string" where
  "toLowerCase s = map lower_char s"

definition predictScores :: "string \<Rightarrow> rat \<Rightarrow> features \<Rightarrow> rat \<times> rat" where
  "predictScores sport hwp f =
    (let s = toLowerCase sport;
         (baseHome, baseAway, variance) =
           (if s = ''nba'' then (110, 105, 15)
            else if s = ''nfl'' then (24, 21, 7)
            else if s = ''mlb'' then (9 / 2, 4, 2)
            else (100, 95, 10));
         probDiff = hwp - 1 / 2;
         scoreAdjustment = probDiff * variance * 2;
         homeScore = baseHome + scoreAdjustment;
         awayScore = baseAway - scoreAdjustment;
         homeScore = homeScore + (home_team_form f - 5) * (variance / 5);
         awayScore = awayScore + (away_team_form f - 5) * (variance / 5);
         homeScore = homeScore - home_injury_impact f * (variance / 10);
         awayScore = awayScore - away_injury_impact f * (variance / 10);
         homeScore = homeScore - home_fatigue f * (variance / 10);
         awayScore = awayScore - away_fatigue f * (variance / 10)
     in (max 0 homeScore, max 0 awayScore))"

record weighted_prediction =
  winner :: side
  homeWinProbability :: int
  awayWinProbability :: int
  homeScore :: int
  awayScore :: int
  spread :: rat
  total :: int

definition calculateWeightedPrediction :: "features \<Rightarrow> string \<Rightarrow> weighted_prediction" where
  "calculateWeightedPrediction f sport =
    (let (hs, as) = predictScores sport (homeWinProb f) f;
         sp = hs - as
     in \<lparr>winner = (if homeWinProb f > 1 / 2 then Home else Away),
         homeWinProbability = js_round (homeWinProb f * 100),
         awayWinProbability = js_round (awayWinProb f * 100),
         homeScore = js_round hs,
         awayScore = js_round as,
         spread = round1 sp,
         total = js_round (hs + as)\<rparr>)"

text \<open>
  \<open>calculateConfidence\<close>. Every entry of the feature vector is a number, so each
  \<open>hasValidData\<close> test holds and the per-factor values are the higher constants.
\<close>

definition calculateConfidence :: "features \<Rightarrow> weighted_prediction \<Rightarrow> int" where
  "calculateConfidence f prediction =
    (let predictionStrength = of_int \<bar>homeWinProbability prediction - 50\<bar> / (50 :: rat);
         dataQuality = (85 + 90 + 80 + 85 + 75 + 70 + 85 + 80) / (8 :: rat);
         overall = js_round (dataQuality * (6 / 10) + predictionStrength * 100 * (4 / 10))
     in min 95 (max 60 overall))"

text \<open>The \<open>game\<close> argument of \<open>generatePrediction\<close>, after enrichment.\<close>

record game_request =
  game_id :: string
  homeTeam :: string
  awayTeam :: string
  homeTeamId :: "team_id option"
  awayTeamId :: "team_id option"
  sport :: "string option"

text \<open>
  The prediction object the engine returns. A property the object does not carry is
  \<open>None\<close>. The per-factor confidences, the key factors and the risk figures of the
  full object are left out: nothing below reads them.
\<close>

record prediction =
  prediction_game_id :: string
  predicted_winner_team_id :: "team_id option"
  predicted_winner_name :: string
  confidence_score :: int
  predicted_home_score :: "int option"
  predicted_away_score :: "int option"
  predicted_spread :: rat
  predicted_total_score :: "int option"
  ai_model :: string
  model_version :: string
  algorithm :: "string option"
  prediction_features :: "features option"

text \<open>
  \<open>generateFallbackPrediction\<close>. The two calls of \<open>Math.random()\<close> are the
  arguments \<open>r1\<close> and \<open>r2\<close>, each a number in \<open>[0, 1)\<close>.
\<close>

definition generateFallbackPrediction :: "game_request \<Rightarrow> rat \<Rightarrow> rat \<Rightarrow> prediction" where
  "generateFallbackPrediction game r1 r2 =
    (let confidence = \<lfloor>r1 * 20\<rfloor> + 65;
         sp = r2 * 10 - 5
     in \<lparr>prediction_game_id = game_id game,
         predicted_winner_team_id = (if sp > 0 then homeTeamId game else awayTeamId game),
         predicted_winner_name = (if sp > 0 then homeTeam game else awayTeam game),
         confidence_score = confidence,
         predicted_home_score = None,
         predicted_away_score = None,
         predicted_spread = round1 sp,
         predicted_total_score = None,
         ai_model = ''Fallback Statistical Model'',
         model_version = ''1.0.0'',
         algorithm = None,
         prediction_features = None\<rparr>)"

text \<open>What the \<open>try\<close> block of \<open>generatePrediction\<close> can throw.\<close>

datatype pipeline_error = CollectionFailed | SportMissing

text \<open>
  The body of the \<open>try\<close> block. Collecting the data is the store's work: its outcome
  is the argument \<open>collected\<close>, either the exception it raised or the feature vector
  built from what it returned. \<open>sport.toLowerCase()\<close> raises when the game has no
  sport.
\<close>

definition tryGeneratePrediction ::
  "game_request \<Rightarrow> pipeline_error + features \<Rightarrow> pipeline_error + prediction" where
  "tryGeneratePrediction game collected =
    (case collected of
       Inl e \<Rightarrow> Inl e
     | Inr f \<Rightarrow>
        (case sport game of
           None \<Rightarrow> Inl SportMissing
         | Some s \<Rightarrow>
            (let p = calculateWeightedPrediction f s;
                 confidence = calculateConfidence f p
             in Inr \<lparr>prediction_game_id = game_id game,
                     predicted_winner_team_id =
                       (if winner p = Home then homeTeamId game else awayTeamId game),
                     predicted_winner_name =
                       (if winner p = Home then homeTeam game else awayTeam game),
                     confidence_score = confidence,
                     predicted_home_score = Some (homeScore p),
                     predicted_away_score = Some (awayScore p),
                     predicted_spread = spread p,
                     predicted_total_score = Some (total p),
                     ai_model = ''Advanced Ensemble v2.0'',
                     model_version = ''2.0.0'',
                     algorithm = Some ''weighted_ensemble_ml'',
                     prediction_features = Some f\<rparr>)))"

text \<open>\<open>generatePrediction\<close>: the \<open>catch\<close> clause answers every exception with the fallback.\<close>

definition generatePrediction ::
  "game_request \<Rightarrow> pipeline_error + features \<Rightarrow> rat \<Rightarrow> rat \<Rightarrow> prediction" where
  "generatePrediction game collected r1 r2 =
    (case tryGeneratePrediction game collected of
       Inl e \<Rightarrow> generateFallbackPrediction game r1 r2
     | Inr p \<Rightarrow> p)"

section \<open>The store\<close>

text \<open>
  The tables the validator and the tuner read and write, each a list of rows in
  table order. A field is named after its column, with the alias the queries give
  the table (\<open>g\<close>, \<open>p\<close>, \<open>a\<close>). Times are seconds. The \<open>features\<close> column
  holds a JSON object: the list of its keys with their numbers, a key the object
  lacks being \<open>undefined\<close> to the code.
\<close>

record game_row =
  g_id :: string
  g_home_score :: "int option"
  g_away_score :: "int option"
  g_status :: string

record prediction_row =
  p_id :: nat
  p_game_id :: string
  p_sport :: "string option"
  p_home_team_id :: "team_id option"
  p_away_team_id :: "team_id option"
  p_predicted_winner_team_id :: team_id
  p_confidence_score :: rat
  p_predicted_spread :: "rat option"
  p_features :: "(string \<times> rat) list option"
  p_created_at :: int
  p_actual_outcome :: "team_id option"
  p_was_correct :: "int option"
  p_margin_of_error :: "rat option"
  p_validated_at :: "int option"

record accuracy_row =
  a_prediction_id :: nat
  a_game_id :: string
  a_predicted_winner :: team_id
  a_actual_winner :: "team_id option"
  a_prediction_correct :: int
  a_confidence_level :: rat
  a_margin_of_error :: rat
  a_sport :: string
  a_created_at :: int

record log_row =
  log_type :: string
  log_created_at :: int

record db =
  games :: "game_row list"
  ai_predictions_enhanced :: "prediction_row list"
  prediction_accuracy :: "accuracy_row list"
  system_logs :: "log_row list"

definition days :: "int \<Rightarrow> int" where
  "days n = n * 24 * 60 * 60"

section \<open>Validator\<close>

text \<open>
  The rows of the validator's \<open>SELECT\<close> before its \<open>LIMIT\<close>: a prediction joined
  with its game, the game finished, the prediction without an \<open>actual_outcome\<close> and
  created within the last seven days.
\<close>

definition needs_validation :: "int \<Rightarrow> prediction_row \<Rightarrow> game_row \<Rightarrow> bool" where
  "needs_validation now p g =
    (p_game_id p = g_id g
     \<and> (g_status g = ''final'' \<or> g_status g = ''completed'')
     \<and> p_actual_outcome p = None
     \<and> p_created_at p \<ge> now - days 7)"

definition pending_rows :: "db \<Rightarrow> int \<Rightarrow> (prediction_row \<times> game_row) list" where
  "pending_rows d now =
    concat (map (\<lambda>p. map (\<lambda>g. (p, g)) (filter (needs_validation now p) (games d)))
            (ai_predictions_enhanced d))"

definition validation_query :: "db \<Rightarrow> int \<Rightarrow> (prediction_row \<times> game_row) list" where
  "validation_query d now = take 100 (pending_rows d now)"

definition actualWinner :: "prediction_row \<Rightarrow> game_row \<Rightarrow> team_id option" where
  "actualWinner p g =
    (if to_num (g_home_score g) > to_num (g_away_score g)
     then p_home_team_id p else p_away_team_id p)"

definition wasCorrect :: "prediction_row \<Rightarrow> game_row \<Rightarrow> bool" where
  "wasCorrect p g = (actualWinner p g = Some (p_predicted_winner_team_id p))"

definition marginOfError :: "prediction_row \<Rightarrow> game_row \<Rightarrow> rat" where
  "marginOfError p g =
    (let actualSpread = to_num (g_home_score g) - to_num (g_away_score g);
         predictedSpread = (case p_predicted_spread p of None \<Rightarrow> 0 | Some x \<Rightarrow> x)
     in \<bar>of_int actualSpread - predictedSpread\<bar>)"

text \<open>The \<open>UPDATE\<close> of the loop: every row with the prediction's id is annotated.\<close>

definition annotate :: "int \<Rightarrow> prediction_row \<times> game_row \<Rightarrow> prediction_row \<Rightarrow> prediction_row" where
  "annotate now pg r =
    (if p_id r = p_id (fst pg) then
       r\<lparr>p_actual_outcome := actualWinner (fst pg) (snd pg),
         p_was_correct := Some (if wasCorrect (fst pg) (snd pg) then 1 else 0),
         p_margin_of_error := Some (marginOfError (fst pg) (snd pg)),
         p_validated_at := Some now\<rparr>
     else r)"

text \<open>The row the loop's \<open>INSERT\<close> adds to \<open>prediction_accuracy\<close>.\<close>

definition accuracy_of :: "int \<Rightarrow> prediction_row \<times> game_row \<Rightarrow> accuracy_row" where
  "accuracy_of now pg =
    \<lparr>a_prediction_id = p_id (fst pg),
     a_game_id = p_game_id (fst pg),
     a_predicted_winner = p_predicted_winner_team_id (fst pg),
     a_actual_winner = actualWinner (fst pg) (snd pg),
     a_prediction_correct = (if wasCorrect (fst pg) (snd pg) then 1 else 0),
     a_confidence_level = p_confidence_score (fst pg),
     a_margin_of_error = marginOfError (fst pg) (snd pg),
     a_sport = (case p_sport (fst pg) of None \<Rightarrow> ''unknown''
                | Some s \<Rightarrow> if s = [] then ''unknown'' else s),
     a_created_at = now\<rparr>"

text \<open>The counters \<open>validated\<close>, \<open>correct\<close> and \<open>incorrect\<close> of the run.\<close>

record counters =
  n_validated :: nat
  n_correct :: nat
  n_incorrect :: nat

text \<open>One pass of the loop body, the store answering every statement.\<close>

definition validate_step ::
  "int \<Rightarrow> prediction_row \<times> game_row \<Rightarrow> db \<times> counters \<Rightarrow> db \<times> counters" where
  "validate_step now pg dc =
    (let d = fst dc; c = snd dc
     in (d\<lparr>ai_predictions_enhanced := map (annotate now pg) (ai_predictions_enhanced d),
           prediction_accuracy := prediction_accuracy d @ [accuracy_of now pg]\<rparr>,
         \<lparr>n_validated = n_validated c + 1,
          n_correct = (if wasCorrect (fst pg) (snd pg) then n_correct c + 1 else n_correct c),
          n_incorrect =
            (if wasCorrect (fst pg) (snd pg) then n_incorrect c else n_incorrect c + 1)\<rparr>))"

text \<open>
  The aggregate query over \<open>prediction_accuracy\<close>. \<open>SUM\<close> and \<open>AVG\<close> over no rows
  are \<open>NULL\<close>.
\<close>

record seven_day_stats =
  st_total :: nat
  st_correct :: "nat option"
  st_avg_confidence :: "rat option"
  st_avg_error :: "rat option"

definition accuracy_stats :: "db \<Rightarrow> int \<Rightarrow> seven_day_stats" where
  "accuracy_stats d now =
    (let rows = filter (\<lambda>a. a_created_at a \<ge> now - days 7) (prediction_accuracy d);
         n = length rows
     in \<lparr>st_total = n,
         st_correct =
           (if n = 0 then None
            else Some (length (filter (\<lambda>a. a_prediction_correct a = 1) rows))),
         st_avg_confidence =
           (if n = 0 then None else Some (sum_list (map a_confidence_level rows) / of_nat n)),
         st_avg_error =
           (if n = 0 then None else Some (sum_list (map a_margin_of_error rows) / of_nat n))\<rparr>)"

record validation_result =
  success :: bool
  validated :: nat
  correct :: nat
  incorrect :: nat
  accuracy_pct :: rat
  stats :: seven_day_stats

text \<open>
  \<open>runPredictionValidation\<close> at time \<open>now\<close>, the store answering every statement:
  the result and the store it leaves. The duration is not part of the model.
\<close>

definition runPredictionValidation :: "db \<Rightarrow> int \<Rightarrow> validation_result \<times> db" where
  "runPredictionValidation d now =
    (let predictions = validation_query d now;
         (d1, c) = fold (validate_step now) predictions
                     (d, \<lparr>n_validated = 0, n_correct = 0, n_incorrect = 0\<rparr>);
         st = accuracy_stats d1 now;
         accuracy =
           (if st_total st > 0
            then toFixed 2 (of_nat (case st_correct st of None \<Rightarrow> 0 | Some k \<Rightarrow> k)
                              / of_nat (st_total st) * 100)
            else 0);
         d2 = d1\<lparr>system_logs := system_logs d1
                  @ [\<lparr>log_type = ''prediction_validation'', log_created_at = now\<rparr>]\<rparr>
     in (\<lparr>success = True, validated = n_validated c, correct = n_correct c,
          incorrect = n_incorrect c, accuracy_pct = accuracy, stats = st\<rparr>, d2))"

text \<open>
  The outcome rule in the words of the specification: the prediction is correct when
  the final scores differ and the team with the higher score is the predicted one;
  on a tie neither team is correct.
\<close>

definition spec_was_correct :: "prediction_row \<Rightarrow> game_row \<Rightarrow> bool" where
  "spec_was_correct p g =
    (to_num (g_home_score g) \<noteq> to_num (g_away_score g)
     \<and> Some (p_predicted_winner_team_id p)
         = (if to_num (g_home_score g) > to_num (g_away_score g)
            then p_home_team_id p else p_away_team_id p))"

section \<open>Weight tuner\<close>

datatype factor =
  Team_form | Player_stats | Injuries | Travel_fatigue | Head_to_head | Home_advantage
  | Rest_differential

text \<open>The keys of \<open>factorPerformance\<close>, in the order \<open>Object.entries\<close> lists them.\<close>

definition all_factors :: "factor list" where
  "all_factors = [Team_form, Player_stats, Injuries, Travel_fatigue, Head_to_head,
                  Home_advantage, Rest_differential]"

record factor_perf =
  perf_correct :: nat
  perf_incorrect :: nat
  perf_avg_impact :: rat
  perf_count :: nat

text \<open>
  The rows of the tuner's \<open>SELECT\<close>: a prediction of the last thirty days that has
  features, joined with each of its accuracy rows; the parsed features come with it.
\<close>

definition tuning_query ::
  "db \<Rightarrow> int \<Rightarrow> (prediction_row \<times> (string \<times> rat) list \<times> accuracy_row) list" where
  "tuning_query d now =
    concat (map (\<lambda>p. case p_features p of
                       None \<Rightarrow> []
                     | Some fs \<Rightarrow>
                         map (\<lambda>a. (p, fs, a))
                           (filter (\<lambda>a. p_id p = a_prediction_id a
                                        \<and> p_created_at p \<ge> now - days 30)
                              (prediction_accuracy d)))
            (ai_predictions_enhanced d))"

text \<open>
  What one prediction adds to a factor's \<open>avg_impact\<close>, when the keys the factor
  reads are there.
\<close>

definition pair_diff :: "(string \<times> rat) list \<Rightarrow> string \<Rightarrow> string \<Rightarrow> rat option" where
  "pair_diff fs k1 k2 =
    (case (map_of fs k1, map_of fs k2) of
       (Some x, Some y) \<Rightarrow> Some \<bar>x - y\<bar>
     | _ \<Rightarrow> None)"

fun factor_impact :: "factor \<Rightarrow> (string \<times> rat) list \<Rightarrow> rat option" where
  "factor_impact Team_form fs = pair_diff fs ''home_team_form'' ''away_team_form''"
| "factor_impact Player_stats fs =
     pair_diff fs ''home_player_advantage'' ''away_player_advantage''"
| "factor_impact Injuries fs = pair_diff fs ''home_injury_impact'' ''away_injury_impact''"
| "factor_impact Travel_fatigue fs = pair_diff fs ''home_fatigue'' ''away_fatigue''"
| "factor_impact Head_to_head fs = map_option (\<lambda>x. \<bar>x - 5\<bar>) (map_of fs ''h2h_advantage'')"
| "factor_impact Home_advantage fs = map_of fs ''home_court_advantage''"
| "factor_impact Rest_differential fs = map_option abs (map_of fs ''rest_advantage'')"

definition analyze_step ::
  "prediction_row \<times> (string \<times> rat) list \<times> accuracy_row
   \<Rightarrow> (factor \<Rightarrow> factor_perf) \<Rightarrow> (factor \<Rightarrow> factor_perf)" where
  "analyze_step row perf =
    (let fs = fst (snd row);
         wasCorrect = (a_prediction_correct (snd (snd row)) = 1)
     in (\<lambda>k. case factor_impact k fs of
               None \<Rightarrow> perf k
             | Some i \<Rightarrow>
                 \<lparr>perf_correct = (if wasCorrect then perf_correct (perf k) + 1
                                  else perf_correct (perf k)),
                  perf_incorrect = (if wasCorrect then perf_incorrect (perf k)
                                    else perf_incorrect (perf k) + 1),
                  perf_avg_impact = perf_avg_impact (perf k) + i,
                  perf_count = perf_count (perf k) + 1\<rparr>))"

definition factorPerformance ::
  "(prediction_row \<times> (string \<times> rat) list \<times> accuracy_row) list \<Rightarrow> factor \<Rightarrow> factor_perf" where
  "factorPerformance rows =
    fold analyze_step rows
      (\<lambda>k. \<lparr>perf_correct = 0, perf_incorrect = 0, perf_avg_impact = 0, perf_count = 0\<rparr>)"

record factor_stats =
  fa_accuracy :: rat
  fa_correct :: nat
  fa_incorrect :: nat
  fa_total :: nat
  fa_avg_impact :: rat

text \<open>\<open>factorAccuracy\<close>: an entry for each factor that was counted at least once.\<close>

definition factorAccuracy :: "(factor \<Rightarrow> factor_perf) \<Rightarrow> (factor \<times> factor_stats) list" where
  "factorAccuracy perf =
    map (\<lambda>k. (k, \<lparr>fa_accuracy =
                     toFixed 2 (of_nat (perf_correct (perf k)) / of_nat (perf_count (perf k)) * 100),
                   fa_correct = perf_correct (perf k),
                   fa_incorrect = perf_incorrect (perf k),
                   fa_total = perf_count (perf k),
                   fa_avg_impact =
                     toFixed 2 (perf_avg_impact (perf k) / of_nat (perf_count (perf k)))\<rparr>))
      (filter (\<lambda>k. perf_count (perf k) > 0) all_factors)"

fun currentWeights :: "factor \<Rightarrow> rat" where
  "currentWeights Team_form = 15 / 100"
| "currentWeights Player_stats = 20 / 100"
| "currentWeights Injuries = 18 / 100"
| "currentWeights Travel_fatigue = 12 / 100"
| "currentWeights Head_to_head = 10 / 100"
| "currentWeights Home_advantage = 8 / 100"
| "currentWeights Rest_differential = 7 / 100"

text \<open>
  The weights before normalisation. \<open>totalAccuracy\<close> is the sum of accuracies that
  are not negative, so it is 0 only when each of them is 0: the quotient is then
  \<open>0 / 0\<close>, which is \<open>NaN\<close>, and \<open>Math.min\<close> and \<open>Math.max\<close> pass \<open>NaN\<close> on.
\<close>

definition clampedWeights :: "(factor \<times> factor_stats) list \<Rightarrow> (factor \<times> rat option) list" where
  "clampedWeights fa =
    (let totalAccuracy = sum_list (map (\<lambda>e. fa_accuracy (snd e)) fa)
     in map (\<lambda>e.
          (let accuracyScore =
                 (if totalAccuracy = 0 then None else Some (fa_accuracy (snd e) / totalAccuracy));
               currentWeight = currentWeights (fst e)
           in (fst e,
               map_option
                 (\<lambda>s. max (2 / 100) (min (30 / 100) (currentWeight + (s - currentWeight) * (3 / 10))))
                 accuracyScore))) fa)"

text \<open>A sum of numbers of which any may be \<open>NaN\<close>.\<close>

fun nan_sum :: "rat option list \<Rightarrow> rat option" where
  "nan_sum [] = Some 0"
| "nan_sum (None # ws) = None"
| "nan_sum (Some w # ws) = map_option (\<lambda>s. w + s) (nan_sum ws)"

text \<open>\<open>optimizedWeights\<close> as the run returns it: each weight over the sum, to three decimals.\<close>

definition optimizedWeights :: "(factor \<times> factor_stats) list \<Rightarrow> (factor \<times> rat option) list" where
  "optimizedWeights fa =
    (let ws = clampedWeights fa;
         weightSum = nan_sum (map snd ws)
     in map (\<lambda>e. (fst e,
                   case (snd e, weightSum) of
                     (Some w, Some sm) \<Rightarrow> Some (toFixed 3 (w / sm))
                   | _ \<Rightarrow> None)) ws)"

datatype tuning_result =
  Insufficient_data bool string nat nat
  | Tuned bool nat "(factor \<times> factor_stats) list" "(factor \<times> rat option) list"

fun tuning_success :: "tuning_result \<Rightarrow> bool" where
  "tuning_success (Insufficient_data ok msg n m) = ok"
| "tuning_success (Tuned ok n fa ws) = ok"

fun tuned_weights :: "tuning_result \<Rightarrow> (factor \<times> rat option) list" where
  "tuned_weights (Insufficient_data ok msg n m) = []"
| "tuned_weights (Tuned ok n fa ws) = ws"

text \<open>
  \<open>runWeightTuning\<close> at time \<open>now\<close>, the store answering every statement: the result
  (\<open>success\<close>, the message or the analysis) and the store it leaves. The text
  recommendations are derived from the returned figures and are not modelled.
\<close>

definition runWeightTuning :: "db \<Rightarrow> int \<Rightarrow> tuning_result \<times> db" where
  "runWeightTuning d now =
    (let predictions = tuning_query d now
     in if length predictions < 20 then
          (Insufficient_data True ''Insufficient data for tuning'' (length predictions) 20, d)
        else
          (let fa = factorAccuracy (factorPerformance predictions)
           in (Tuned True (length predictions) fa (optimizedWeights fa),
               d\<lparr>system_logs := system_logs d
                    @ [\<lparr>log_type = ''weight_tuning'', log_created_at = now\<rparr>]\<rparr>)))"

text \<open>
  The \<open>features\<close> column of the row the prediction handler stores:
  \<open>JSON.stringify\<close> of the prediction's feature vector, nothing when the prediction
  has none.
\<close>

definition features_json :: "features \<Rightarrow> (string \<times> rat) list" where
  "features_json f =
    [(''home_team_form'', home_team_form f), (''away_team_form'', away_team_form f),
     (''home_player_advantage'', home_player_advantage f),
     (''away_player_advantage'', away_player_advantage f),
     (''home_injury_impact'', home_injury_impact f),
     (''away_injury_impact'', away_injury_impact f),
     (''home_fatigue'', home_fatigue f), (''away_fatigue'', away_fatigue f),
     (''h2h_advantage'', h2h_advantage f),
     (''home_court_advantage'', home_court_advantage f),
     (''rest_advantage'', rest_advantage f), (''weather_impact'', weather_impact f),
     (''home_sentiment'', home_sentiment f), (''away_sentiment'', away_sentiment f),
     (''line_value'', line_value f)]"


section \<open>Sample data\<close>

text \<open>
  A feature vector whose terms cancel: the away side's better form against the
  head-to-head and home-court terms.
\<close>

definition balanced_features :: features where
  "balanced_features =
    \<lparr>home_team_form = 2, away_team_form = 8, home_player_advantage = 5,
     away_player_advantage = 5, home_injury_impact = 0, away_injury_impact = 0,
     home_fatigue = 2, away_fatigue = 2, h2h_advantage = 5, home_court_advantage = 5,
     rest_advantage = 0, weather_impact = 0, home_sentiment = 5, away_sentiment = 5,
     sharp_money_indicator = ''neutral'', line_value = 0\<rparr>"

definition sample_game :: game_request where
  "sample_game =
    \<lparr>game_id = ''401'', homeTeam = ''Celtics'', awayTeam = ''Lakers'',
     homeTeamId = Some ''nba-bos'', awayTeamId = Some ''nba-lal'', sport = Some ''NBA''\<rparr>"

text \<open>
  A store of \<open>n\<close> predictions made at time 0 with the engine's features, each with one
  accuracy row whose \<open>prediction_correct\<close> is \<open>c\<close>.
\<close>

definition sample_prediction :: "nat \<Rightarrow> prediction_row" where
  "sample_prediction i =
    \<lparr>p_id = i, p_game_id = ''401'', p_sport = Some ''NBA'',
     p_home_team_id = Some ''nba-bos'', p_away_team_id = Some ''nba-lal'',
     p_predicted_winner_team_id = ''nba-bos'', p_confidence_score = 70,
     p_predicted_spread = Some 7,
     p_features = Some (features_json balanced_features),
     p_created_at = 0, p_actual_outcome = Some ''nba-lal'', p_was_correct = Some 0,
     p_margin_of_error = Some 2, p_validated_at = Some 0\<rparr>"

definition sample_accuracy :: "int \<Rightarrow> nat \<Rightarrow> accuracy_row" where
  "sample_accuracy c i =
    \<lparr>a_prediction_id = i, a_game_id = ''401'', a_predicted_winner = ''nba-bos'',
     a_actual_winner = Some ''nba-lal'', a_prediction_correct = c,
     a_confidence_level = 70, a_margin_of_error = 2, a_sport = ''NBA'', a_created_at = 0\<rparr>"

text \<open>
  A store of \<open>n\<close> predictions made at time 0 for one finished game and not yet
  validated, with the game's final score. The home team is \<open>nba-bos\<close>; the away
  team's id and the predicted winner are arguments.
\<close>

definition pending_prediction :: "team_id option \<Rightarrow> team_id \<Rightarrow> nat \<Rightarrow> prediction_row" where
  "pending_prediction away w i =
    \<lparr>p_id = i, p_game_id = ''401'', p_sport = Some ''NBA'',
     p_home_team_id = Some ''nba-bos'', p_away_team_id = away,
     p_predicted_winner_team_id = w, p_confidence_score = 70,
     p_predicted_spread = Some 7,
     p_features = Some (features_json balanced_features),
     p_created_at = 0, p_actual_outcome = None, p_was_correct = None,
     p_margin_of_error = None, p_validated_at = None\<rparr>"

definition final_game :: "int \<Rightarrow> int \<Rightarrow> game_row" where
  "final_game h a =
    \<lparr>g_id = ''401'', g_home_score = Some h, g_away_score = Some a, g_status = ''final''\<rparr>"

definition open_db :: "nat \<Rightarrow> team_id option \<Rightarrow> team_id \<Rightarrow> int \<Rightarrow> int \<Rightarrow> db" where
  "open_db n away w h a =
    \<lparr>games = [final_game h a],
     ai_predictions_enhanced = map (pending_prediction away w) [0 ..< n],
     prediction_accuracy = [],
     system_logs = []\<rparr>"

definition sample_db :: "nat \<Rightarrow> int \<Rightarrow> db" where
  "sample_db n c =
    \<lparr>games = [],
     ai_predictions_enhanced = map sample_prediction [0 ..< n],
     prediction_accuracy = map (sample_accuracy c) [0 ..< n],
     system_logs = []\<rparr>"

text \<open>
  An accuracy table as the tuner builds it, one factor right in every counted
  prediction and the others in none.
\<close>

definition accuracy_entry :: "factor \<Rightarrow> nat \<Rightarrow> nat \<Rightarrow> factor \<times> factor_stats" where
  "accuracy_entry k right n =
    (k, \<lparr>fa_accuracy = toFixed 2 (of_nat right / of_nat n * 100), fa_correct = right,
         fa_incorrect = n - right, fa_total = n, fa_avg_impact = 0\<rparr>)"

definition skewed_accuracy :: "(factor \<times> factor_stats) list" where
  "skewed_accuracy =
    [accuracy_entry Team_form 0 10, accuracy_entry Player_stats 10 10,
     accuracy_entry Injuries 0 10, accuracy_entry Travel_fatigue 0 10,
     accuracy_entry Head_to_head 0 10, accuracy_entry Home_advantage 0 10,
     accuracy_entry Rest_differential 0 10]"

section \<open>Travel fatigue: the score\<close>

lemma fatigue_score_snapshot:
  "fatigue_score (calculateTravelFatigue gs t)
     = fatigue_of (days_rest (calculateTravelFatigue gs t))
         (games_in_last_week (calculateTravelFatigue gs t))"
  by (cases gs)
    (simp_all add: calculateTravelFatigue_def fatigue_of_def rest_points_def Let_def
       split del: if_split)

lemma clamp_mono: "a \<le> b \<Longrightarrow> min 10 (max 0 a) \<le> min (10::int) (max 0 b)"
  by linarith

lemma rest_points_anti: "0 \<le> d' \<Longrightarrow> d' \<le> d \<Longrightarrow> rest_points d \<le> rest_points d'"
  by (simp add: rest_points_def)

lemma fatigue_of_mono_games: "g \<le> g' \<Longrightarrow> fatigue_of d g \<le> fatigue_of d g'"
  unfolding fatigue_of_def by (rule clamp_mono) simp

lemma fatigue_of_agrees_from_two_games:
  "2 \<le> g \<Longrightarrow> g \<le> 5 \<Longrightarrow> fatigue_of d g = spec_fatigue_score d g"
  by (simp add: fatigue_of_def rest_points_def spec_fatigue_score_def Let_def)

lemma fatigue_of_anti_days: "0 \<le> d' \<Longrightarrow> d' \<le> d \<Longrightarrow> fatigue_of d g \<le> fatigue_of d' g"
  unfolding fatigue_of_def by (rule clamp_mono) (simp add: rest_points_anti)

lemma one_game_snapshot:
  "calculateTravelFatigue one_game t
     = \<lparr>days_rest = (t - 1700000000000) div 86400000,
        games_in_last_week = (if t < 1700604800000 then 1 else 0),
        back_to_back = ((t - 1700000000000) div 86400000 \<le> 1),
        fatigue_score =
          fatigue_of ((t - 1700000000000) div 86400000) (if t < 1700604800000 then 1 else 0),
        estimated_miles = 0, time_zones_crossed = 0\<rparr>"
proof (cases "t < 1700604800000")
  case True
  then show ?thesis
    unfolding calculateTravelFatigue_def one_game_def date_ms_def Let_def list.case
      fatigue_of_def rest_points_def
    by (simp split del: if_split cong: if_cong)
next
  case False
  then show ?thesis
    unfolding calculateTravelFatigue_def one_game_def date_ms_def Let_def list.case
      fatigue_of_def rest_points_def
    by (simp split del: if_split cong: if_cong)
qed

text \<open>
  C3. The claim: the fatigue score is the step value of the days of rest (10, 7, 4, 2,
  then 0) plus one point for each game beyond two in the trailing seven days, and no
  adjustment at two games or fewer, clamped to 0..10. The code adds
  \<open>min 3 (gamesLastWeek - 2)\<close>, which is negative below two games: for a team
  whose one recent game (at millisecond 1700000000000) lies thirty hours before the
  reference time the days of rest are 1 and the games in the week 1, the code returns 6 and the rule of the
  claim gives 7.
\<close>

theorem fatigue_score_one_game_back_to_back:
  "days_rest (calculateTravelFatigue one_game 1700108000000) = 1
   \<and> games_in_last_week (calculateTravelFatigue one_game 1700108000000) = 1
   \<and> fatigue_score (calculateTravelFatigue one_game 1700108000000) = 6
   \<and> spec_fatigue_score 1 1 = 7"
  by (simp add: one_game_snapshot fatigue_of_def rest_points_def spec_fatigue_score_def)

text \<open>
  C4, as stated: of two snapshots with the same games in the last week, the one with
  fewer days of rest has the greater or equal score. It fails when the reference time
  lies before the last finished game: the days of rest are then negative and take the
  last branch of the \<open>if\<close> chain. One hour before the game of \<open>one_game\<close> the
  days of rest are -1 and the score 0; one hour after it they are 0 and the score 9.
\<close>

theorem fatigue_not_monotone_before_last_game:
  "games_in_last_week (calculateTravelFatigue one_game 1699996400000)
     = games_in_last_week (calculateTravelFatigue one_game 1700003600000)
   \<and> days_rest (calculateTravelFatigue one_game 1699996400000)
     < days_rest (calculateTravelFatigue one_game 1700003600000)
   \<and> fatigue_score (calculateTravelFatigue one_game 1699996400000)
     < fatigue_score (calculateTravelFatigue one_game 1700003600000)"
  unfolding one_game_snapshot by (simp add: fatigue_of_def rest_points_def)

text \<open>
  C4, amended: of two snapshots with the same games in the last week, the one with
  fewer days of rest has the greater or equal score, provided its days of rest are not
  negative; of two snapshots with the same days of rest, the one with more games in
  the last week has the greater or equal score.
\<close>

theorem fatigue_score_monotone:
  "(games_in_last_week (calculateTravelFatigue gs1 t1)
      = games_in_last_week (calculateTravelFatigue gs2 t2)
    \<and> 0 \<le> days_rest (calculateTravelFatigue gs2 t2)
    \<and> days_rest (calculateTravelFatigue gs2 t2) \<le> days_rest (calculateTravelFatigue gs1 t1)
    \<longrightarrow> fatigue_score (calculateTravelFatigue gs1 t1)
          \<le> fatigue_score (calculateTravelFatigue gs2 t2))
   \<and> (days_rest (calculateTravelFatigue gs1 t1) = days_rest (calculateTravelFatigue gs2 t2)
      \<and> games_in_last_week (calculateTravelFatigue gs1 t1)
          \<le> games_in_last_week (calculateTravelFatigue gs2 t2)
    \<longrightarrow> fatigue_score (calculateTravelFatigue gs1 t1)
          \<le> fatigue_score (calculateTravelFatigue gs2 t2))"
  unfolding fatigue_score_snapshot [of gs1] fatigue_score_snapshot [of gs2]
  by (auto intro: fatigue_of_anti_days fatigue_of_mono_games)

theorem fatigue_score_monotone_witness:
  "fatigue_score (calculateTravelFatigue one_game 1700288000000)
     \<le> fatigue_score (calculateTravelFatigue one_game 1700108000000)
   \<and> fatigue_score (calculateTravelFatigue [] 0)
     \<le> fatigue_score (calculateTravelFatigue one_game 1700612000000)"
proof -
  have a: "fatigue_score (calculateTravelFatigue one_game 1700288000000)
     \<le> fatigue_score (calculateTravelFatigue one_game 1700108000000)"
    using fatigue_score_monotone
      [of one_game 1700288000000 one_game 1700108000000]
    unfolding one_game_snapshot by simp
  have e: "calculateTravelFatigue [] 0
     = \<lparr>days_rest = 7, games_in_last_week = 0, back_to_back = False,
        fatigue_score = 0, estimated_miles = 0, time_zones_crossed = 0\<rparr>"
    by (simp add: calculateTravelFatigue_def)
  have b: "fatigue_score (calculateTravelFatigue [] 0)
     \<le> fatigue_score (calculateTravelFatigue one_game 1700612000000)"
    using fatigue_score_monotone
      [of "[]" 0 one_game 1700612000000]
    unfolding one_game_snapshot e by simp
  from a b show ?thesis by simp
qed


section \<open>Rounding numerals\<close>

lemma floor_numeral_div:
  "\<lfloor>numeral a / numeral b :: rat\<rfloor> = numeral a div numeral b"
  using floor_divide_of_int_eq [of "numeral a" "numeral b", where ?'a = rat] by simp

section \<open>Prediction engine: the differential\<close>

lemma if_add_points:
  "(if P then x + 10 else if Q then x - 10 else x)
     = x + (if P then 10 else if Q then - 10 else (0::rat))"
  by simp

lemma clamp_bounds: "0 \<le> max 0 (min 100 (y::rat)) \<and> max 0 (min 100 y) \<le> 100"
  by simp

text \<open>
  C7. The differential starts at 50. Each feature with a home and an away value adds
  (home - away) times its gain (form 3, player advantage 4, sentiment 0.4); injuries
  and fatigue add (away - home) times their gain (3.6 and 2.4); the features that are
  one home-side figure (head-to-head, home court, rest, weather) add the figure times
  their gain (2, 1.6, 1.4, 0.6); the sharp-money indicator adds 10 for the home side
  and takes 10 for the away side. The sum is clamped to 0..100 once, after the last
  addition, and the home-win probability is the clamped value over 100.
\<close>

theorem homeAdvantage_closed_form:
  "homeAdvantage f =
     max 0 (min 100
       (50 + (home_team_form f - away_team_form f) * 3
           + (home_player_advantage f - away_player_advantage f) * 4
           + (away_injury_impact f - home_injury_impact f) * (36 / 10)
           + (away_fatigue f - home_fatigue f) * (24 / 10)
           + h2h_advantage f * 2
           + home_court_advantage f * (16 / 10)
           + rest_advantage f * (14 / 10)
           + weather_impact f * (6 / 10)
           + (home_sentiment f - away_sentiment f) * (4 / 10)
           + sharp_money_points f))
   \<and> homeWinProb f = homeAdvantage f / 100"
  unfolding homeAdvantage_def homeWinProb_def Let_def sharp_money_points_def if_add_points
  by simp

lemma homeAdvantage_clamped: "\<exists>y. homeAdvantage f = max 0 (min 100 y)"
  unfolding homeAdvantage_def Let_def by blast

lemma homeAdvantage_bounds: "0 \<le> homeAdvantage f \<and> homeAdvantage f \<le> 100"
proof -
  obtain y where "homeAdvantage f = max 0 (min 100 y)"
    using homeAdvantage_clamped by blast
  then show ?thesis using clamp_bounds [of y] by simp
qed

lemma winner_rule:
  "winner (calculateWeightedPrediction f s) = (if homeWinProb f > 1 / 2 then Home else Away)"
  by (simp add: calculateWeightedPrediction_def split: prod.splits)

lemma generatePrediction_winner:
  "sport g = Some s \<Longrightarrow>
   predicted_winner_team_id (generatePrediction g (Inr f) r1 r2)
     = (if winner (calculateWeightedPrediction f s) = Home then homeTeamId g else awayTeamId g)"
  by (simp add: generatePrediction_def tryGeneratePrediction_def Let_def)

lemma balanced_features_50: "homeAdvantage balanced_features = 50"
  by (simp add: homeAdvantage_def balanced_features_def Let_def)

text \<open>
  C10. The home team is the predicted winner exactly when the home-win probability is
  above one half. At a clamped differential of exactly 50 the probability is one half
  and the predicted winner is the away team, also in the prediction
  \<open>generatePrediction\<close> returns.
\<close>

theorem winner_away_at_even_odds:
  "(winner (calculateWeightedPrediction f s) = Home \<longleftrightarrow> homeWinProb f > 1 / 2)
   \<and> (homeAdvantage f = 50 \<longrightarrow>
        homeWinProb f = 1 / 2
        \<and> winner (calculateWeightedPrediction f s) = Away
        \<and> (sport g = Some s \<longrightarrow>
             predicted_winner_team_id (generatePrediction g (Inr f) r1 r2) = awayTeamId g))"
  by (simp add: winner_rule generatePrediction_winner homeWinProb_def)

theorem winner_away_at_even_odds_witness:
  "homeAdvantage balanced_features = 50
   \<and> homeWinProb balanced_features = 1 / 2
   \<and> winner (calculateWeightedPrediction balanced_features ''NBA'') = Away
   \<and> predicted_winner_team_id
        (generatePrediction sample_game (Inr balanced_features) (1 / 2) (3 / 4))
       = Some ''nba-lal''"
  using winner_away_at_even_odds
    [of balanced_features "''NBA''" sample_game "1 / 2" "3 / 4"]
  by (simp add: balanced_features_50 sample_game_def)

section \<open>Prediction engine: the fallback\<close>






lemma sample_rows:
  "tuning_query (sample_db n c) 0
     = map (\<lambda>i. (sample_prediction i, features_json balanced_features, sample_accuracy c i))
         [0 ..< n]"
proof -
  have f: "filter (\<lambda>a. i = a_prediction_id a) (map (sample_accuracy c) [0 ..< n])
            = (if i < n then [sample_accuracy c i] else [])" for i
  proof (induction n)
    case 0
    show ?case by simp
  next
    case (Suc n)
    then show ?case by (auto simp: sample_accuracy_def)
  qed
  have "m \<le> n \<Longrightarrow>
        concat (map (\<lambda>i. map (h i) (if i < n then [g i] else [])) [0 ..< m])
          = map (\<lambda>i. h i (g i)) [0 ..< m]"
    for g :: "nat \<Rightarrow> 'b" and h :: "nat \<Rightarrow> 'b \<Rightarrow> 'c" and m
    by (induction m) auto
  from this [of n] show ?thesis
    by (simp add: tuning_query_def sample_db_def comp_def f days_def sample_prediction_def
          cong: if_cong)
qed




section \<open>Weight tuner: the sample threshold and the weights\<close>

lemma sample_rows_length: "length (tuning_query (sample_db n c) 0) = n"
  by (simp add: sample_rows)

text \<open>
  C8. With fewer than 20 rows to analyse the tuner returns the insufficient-data
  result, with \<open>success\<close> true, the number of rows and the minimum 20, and the store
  it leaves is the store it was given: nothing is written, no weight is changed.
\<close>

theorem tuner_insufficient_data:
  "length (tuning_query d now) < 20 \<Longrightarrow>
   runWeightTuning d now
     = (Insufficient_data True ''Insufficient data for tuning''
          (length (tuning_query d now)) 20, d)
   \<and> tuning_success (fst (runWeightTuning d now))
   \<and> tuned_weights (fst (runWeightTuning d now)) = []"
  by (simp add: runWeightTuning_def Let_def)

theorem tuner_insufficient_data_witness:
  "runWeightTuning (sample_db 15 1) 0
     = (Insufficient_data True ''Insufficient data for tuning'' 15 20, sample_db 15 1)
   \<and> tuning_success (fst (runWeightTuning (sample_db 15 1) 0))
   \<and> tuned_weights (fst (runWeightTuning (sample_db 15 1) 0)) = []"
  using tuner_insufficient_data [of "sample_db 15 1" 0] by (simp add: sample_rows_length)

lemma fold_analyze_count:
  "perf_count (fold analyze_step rows perf k)
     = perf_count (perf k)
       + length (filter (\<lambda>r. factor_impact k (fst (snd r)) \<noteq> None) rows)"
proof (induction rows arbitrary: perf)
  case Nil
  show ?case by simp
next
  case (Cons r rows)
  show ?case
    unfolding fold_Cons comp_def Cons.IH
    by (simp add: analyze_step_def Let_def split: option.splits)
qed

lemma fold_analyze_correct:
  "perf_correct (fold analyze_step rows perf k)
     = perf_correct (perf k)
       + length (filter (\<lambda>r. factor_impact k (fst (snd r)) \<noteq> None
                              \<and> a_prediction_correct (snd (snd r)) = 1) rows)"
proof (induction rows arbitrary: perf)
  case Nil
  show ?case by simp
next
  case (Cons r rows)
  show ?case
    unfolding fold_Cons comp_def Cons.IH
    by (simp add: analyze_step_def Let_def split: option.splits)
qed

lemma factorPerformance_count:
  "perf_count (factorPerformance rows k)
     = length (filter (\<lambda>r. factor_impact k (fst (snd r)) \<noteq> None) rows)"
  by (simp add: factorPerformance_def fold_analyze_count)

lemma factorPerformance_correct:
  "perf_correct (factorPerformance rows k)
     = length (filter (\<lambda>r. factor_impact k (fst (snd r)) \<noteq> None
                             \<and> a_prediction_correct (snd (snd r)) = 1) rows)"
  by (simp add: factorPerformance_def fold_analyze_correct)

lemma floor_half: "\<lfloor>1 / 2 :: rat\<rfloor> = 0"
  using floor_divide_of_int_eq [of 1 2, where ?'a = rat] by simp

lemma toFixed_0: "toFixed k 0 = 0"
  by (simp add: toFixed_def floor_half)

lemma factorAccuracy_all_incorrect:
  assumes "\<forall>r \<in> set rows. a_prediction_correct (snd (snd r)) \<noteq> 1"
  shows "\<forall>e \<in> set (factorAccuracy (factorPerformance rows)). fa_accuracy (snd e) = 0"
proof -
  have "filter (\<lambda>r. factor_impact k (fst (snd r)) \<noteq> None
                     \<and> a_prediction_correct (snd (snd r)) = 1) rows = []" for k
    using assms by (simp add: filter_empty_conv)
  then have "perf_correct (factorPerformance rows k) = 0" for k
    by (simp add: factorPerformance_correct)
  then show ?thesis
    by (auto simp: factorAccuracy_def toFixed_0)
qed

lemma optimizedWeights_zero_accuracy:
  assumes "\<forall>e \<in> set fa. fa_accuracy (snd e) = 0"
  shows "optimizedWeights fa = map (\<lambda>e. (fst e, None)) fa"
proof -
  have "sum_list (map (\<lambda>e. fa_accuracy (snd e)) fa) = 0"
    using assms by (induction fa) auto
  then have "clampedWeights fa = map (\<lambda>e. (fst e, None)) fa"
    by (simp add: clampedWeights_def)
  then show ?thesis
    by (simp add: optimizedWeights_def comp_def)
qed

lemma balanced_impacts: "\<exists>y. factor_impact k (features_json balanced_features) = Some y"
  by (cases k) (simp_all add: features_json_def pair_diff_def)

text \<open>
  C1. The claim: for every accuracy distribution, the all-zero one included, the
  proposed weights sum to 1 and each lies within 0.02 and 0.30. The code announces
  both (it clamps to these bounds and its comment says the weights are normalised to
  sum to 1) and misses them. With twenty analysed predictions, every one of them
  wrong, each accuracy is 0, their total is 0, and every proposed weight is
  \<open>0 / 0\<close>: not a number.
\<close>

theorem tuner_all_incorrect_no_weights:
  "tuning_success (fst (runWeightTuning (sample_db 20 0) 0))
   \<and> tuned_weights (fst (runWeightTuning (sample_db 20 0) 0))
       = [(Team_form, None), (Player_stats, None), (Injuries, None), (Travel_fatigue, None),
          (Head_to_head, None), (Home_advantage, None), (Rest_differential, None)]"
proof -
  let ?rows = "tuning_query (sample_db 20 0) 0"
  have wrong: "\<forall>r \<in> set ?rows. a_prediction_correct (snd (snd r)) \<noteq> 1"
    by (auto simp: sample_rows sample_accuracy_def)
  have count: "perf_count (factorPerformance ?rows k) = 20" for k
    by (simp add: factorPerformance_count sample_rows comp_def balanced_impacts)
  have keys: "map fst (factorAccuracy (factorPerformance ?rows)) = all_factors"
    by (simp add: factorAccuracy_def comp_def count)
  have "optimizedWeights (factorAccuracy (factorPerformance ?rows))
          = map (\<lambda>k. (k, None)) (map fst (factorAccuracy (factorPerformance ?rows)))"
    using optimizedWeights_zero_accuracy [OF factorAccuracy_all_incorrect [OF wrong]]
    by (simp add: comp_def)
  then have "optimizedWeights (factorAccuracy (factorPerformance ?rows))
          = map (\<lambda>k. (k, None)) all_factors"
    unfolding keys .
  then show ?thesis
    by (simp add: runWeightTuning_def Let_def sample_rows_length all_factors_def)
qed


text \<open>
  The bounds are lost in the same steps when the accuracies are far apart: the clamp
  comes before the division by the sum. With one factor always right and the others
  never, that factor is clamped to 0.30 and then normalised to 0.380.
\<close>

lemma clampedWeights_skewed:
  "clampedWeights skewed_accuracy
     = [(Team_form, Some (105 / 1000)), (Player_stats, Some (30 / 100)),
        (Injuries, Some (126 / 1000)), (Travel_fatigue, Some (84 / 1000)),
        (Head_to_head, Some (70 / 1000)), (Home_advantage, Some (56 / 1000)),
        (Rest_differential, Some (49 / 1000))]"
  by (simp add: clampedWeights_def skewed_accuracy_def accuracy_entry_def toFixed_def
        floor_numeral_div floor_half)

lemma optimizedWeights_skewed:
  "optimizedWeights skewed_accuracy
     = [(Team_form, Some (133 / 1000)), (Player_stats, Some (380 / 1000)),
        (Injuries, Some (159 / 1000)), (Travel_fatigue, Some (106 / 1000)),
        (Head_to_head, Some (89 / 1000)), (Home_advantage, Some (71 / 1000)),
        (Rest_differential, Some (62 / 1000))]"
  unfolding optimizedWeights_def clampedWeights_skewed Let_def
  by (simp add: toFixed_def floor_numeral_div)

section \<open>Team form: the score\<close>











section \<open>Validator: one prediction\<close>

lemma annotate_fields:
  "p_id (annotate now pg r) = p_id r"
  "p_game_id (annotate now pg r) = p_game_id r"
  "p_created_at (annotate now pg r) = p_created_at r"
  by (simp_all add: annotate_def)

lemma validate_step_db:
  "fst (validate_step now pg (d, c))
     = d\<lparr>ai_predictions_enhanced := map (annotate now pg) (ai_predictions_enhanced d),
          prediction_accuracy := prediction_accuracy d @ [accuracy_of now pg]\<rparr>"
  by (simp add: validate_step_def Let_def)

text \<open>
  C6, as stated: on a tied final score neither team is correct. The code has no case
  for a tie: the comparison \<open>home_score > away_score\<close> fails and the away team
  is taken as the winner. For a game that ended 100 to 100 and a prediction of the
  away team, the run records \<open>was_correct = 1\<close>.
\<close>

theorem tie_counts_for_away_team:
  "map p_was_correct
     (ai_predictions_enhanced
        (snd (runPredictionValidation (open_db 1 (Some ''nba-lal'') ''nba-lal'' 100 100) 0)))
     = [Some 1]
   \<and> correct (fst (runPredictionValidation (open_db 1 (Some ''nba-lal'') ''nba-lal'' 100 100) 0))
       = 1
   \<and> \<not> spec_was_correct (pending_prediction (Some ''nba-lal'') ''nba-lal'' 0) (final_game 100 100)"
  by (simp add: runPredictionValidation_def validation_query_def pending_rows_def open_db_def
        needs_validation_def final_game_def pending_prediction_def days_def validate_step_def annotate_def
        wasCorrect_def actualWinner_def to_num_def spec_was_correct_def Let_def)

text \<open>
  C6, amended: for every prediction validated against a final result, the recorded
  actual winner is the home team when \<open>home_score > away_score\<close> and the away team
  otherwise (so also on a tie); \<open>was_correct\<close> is 1 exactly when that team is the
  predicted winner and 0 otherwise; and \<open>margin_of_error\<close> is the absolute value of
  (home_score - away_score) minus the predicted spread, a missing spread or score
  counting as 0. The same outcome goes into the row added to \<open>prediction_accuracy\<close>.
\<close>

theorem validate_step_outcome:
  "(\<forall>r \<in> set (ai_predictions_enhanced (fst (validate_step now (p, g) (d, c)))).
      p_id r = p_id p \<longrightarrow>
        p_actual_outcome r
          = (if to_num (g_home_score g) > to_num (g_away_score g)
             then p_home_team_id p else p_away_team_id p)
        \<and> p_was_correct r
          = Some (if p_actual_outcome r = Some (p_predicted_winner_team_id p) then 1 else 0)
        \<and> p_margin_of_error r
          = Some \<bar>of_int (to_num (g_home_score g) - to_num (g_away_score g))
                  - (case p_predicted_spread p of None \<Rightarrow> 0 | Some x \<Rightarrow> x)\<bar>
        \<and> p_validated_at r = Some now)
   \<and> a_actual_winner (last (prediction_accuracy (fst (validate_step now (p, g) (d, c)))))
       = (if to_num (g_home_score g) > to_num (g_away_score g)
          then p_home_team_id p else p_away_team_id p)
   \<and> a_prediction_correct (last (prediction_accuracy (fst (validate_step now (p, g) (d, c)))))
       = (if (if to_num (g_home_score g) > to_num (g_away_score g)
              then p_home_team_id p else p_away_team_id p)
             = Some (p_predicted_winner_team_id p) then 1 else 0)
   \<and> a_margin_of_error (last (prediction_accuracy (fst (validate_step now (p, g) (d, c)))))
       = \<bar>of_int (to_num (g_home_score g) - to_num (g_away_score g))
           - (case p_predicted_spread p of None \<Rightarrow> 0 | Some x \<Rightarrow> x)\<bar>"
  unfolding validate_step_db
  by (auto simp: annotate_def accuracy_of_def wasCorrect_def actualWinner_def
        marginOfError_def Let_def)

theorem validate_step_outcome_witness:
  "map (\<lambda>r. (p_actual_outcome r, p_was_correct r, p_margin_of_error r, p_validated_at r))
     (ai_predictions_enhanced
        (fst (validate_step 5 (pending_prediction (Some ''nba-lal'') ''nba-bos'' 0, final_game 110 101)
                (open_db 1 (Some ''nba-lal'') ''nba-bos'' 110 101,
                 \<lparr>n_validated = 0, n_correct = 0, n_incorrect = 0\<rparr>))))
     = [(Some ''nba-bos'', Some 1, Some 2, Some 5)]"
proof -
  let ?p = "pending_prediction (Some ''nba-lal'') ''nba-bos'' 0"
  let ?d = "fst (validate_step 5 (?p, final_game 110 101)
                   (open_db 1 (Some ''nba-lal'') ''nba-bos'' 110 101,
                    \<lparr>n_validated = 0, n_correct = 0, n_incorrect = 0\<rparr>))"
  have rows: "ai_predictions_enhanced ?d = [annotate 5 (?p, final_game 110 101) ?p]"
    by (simp add: validate_step_db open_db_def)
  have sel: "p_id (annotate 5 (?p, final_game 110 101) ?p) = p_id ?p"
    by (simp add: annotate_fields)
  have "annotate 5 (?p, final_game 110 101) ?p \<in> set (ai_predictions_enhanced ?d)"
    unfolding rows by simp
  with validate_step_outcome
         [of 5 ?p "final_game 110 101" "open_db 1 (Some ''nba-lal'') ''nba-bos'' 110 101"
             "\<lparr>n_validated = 0, n_correct = 0, n_incorrect = 0\<rparr>"] sel
  have "p_actual_outcome (annotate 5 (?p, final_game 110 101) ?p) = Some ''nba-bos''
        \<and> p_was_correct (annotate 5 (?p, final_game 110 101) ?p) = Some 1
        \<and> p_margin_of_error (annotate 5 (?p, final_game 110 101) ?p) = Some 2
        \<and> p_validated_at (annotate 5 (?p, final_game 110 101) ?p) = Some 5"
    by (simp add: final_game_def pending_prediction_def to_num_def)
  then show ?thesis
    unfolding rows by simp
qed


section \<open>Validator: the run\<close>

lemma fold_validate_db:
  "fst (fold (validate_step now) rows (d, c))
     = d\<lparr>ai_predictions_enhanced :=
            map (fold (annotate now) rows) (ai_predictions_enhanced d),
          prediction_accuracy := prediction_accuracy d @ map (accuracy_of now) rows\<rparr>"
proof (induction rows arbitrary: d c)
  case Nil
  show ?case by simp
next
  case (Cons pg rows)
  define s where "s = validate_step now pg (d, c)"
  have d1: "fst s = d\<lparr>ai_predictions_enhanced := map (annotate now pg) (ai_predictions_enhanced d),
                        prediction_accuracy := prediction_accuracy d @ [accuracy_of now pg]\<rparr>"
    unfolding s_def by (rule validate_step_db)
  have "fst (fold (validate_step now) (pg # rows) (d, c))
          = fst (fold (validate_step now) rows (fst s, snd s))"
    by (simp add: s_def)
  also have "\<dots> = (fst s)\<lparr>ai_predictions_enhanced :=
                        map (fold (annotate now) rows) (ai_predictions_enhanced (fst s)),
                      prediction_accuracy :=
                        prediction_accuracy (fst s) @ map (accuracy_of now) rows\<rparr>"
    by (rule Cons.IH)
  also have "\<dots> = d\<lparr>ai_predictions_enhanced :=
                      map (fold (annotate now) (pg # rows)) (ai_predictions_enhanced d),
                    prediction_accuracy :=
                      prediction_accuracy d @ map (accuracy_of now) (pg # rows)\<rparr>"
    unfolding d1 by (simp add: comp_def)
  finally show ?case .
qed

lemma fold_validate_count:
  "n_validated (snd (fold (validate_step now) rows (d, c))) = n_validated c + length rows"
proof (induction rows arbitrary: d c)
  case Nil
  show ?case by simp
next
  case (Cons pg rows)
  define s where "s = validate_step now pg (d, c)"
  have c1: "n_validated (snd s) = n_validated c + 1"
    unfolding s_def by (simp add: validate_step_def Let_def)
  have "n_validated (snd (fold (validate_step now) (pg # rows) (d, c)))
          = n_validated (snd (fold (validate_step now) rows (fst s, snd s)))"
    by (simp add: s_def)
  also have "\<dots> = n_validated (snd s) + length rows"
    by (rule Cons.IH)
  finally show ?case
    unfolding c1 by simp
qed

lemma run_validated:
  "validated (fst (runPredictionValidation d now)) = length (validation_query d now)"
  by (simp add: runPredictionValidation_def Let_def split_beta fold_validate_count)

lemma run_games: "games (snd (runPredictionValidation d now)) = games d"
  by (simp add: runPredictionValidation_def Let_def split_beta fold_validate_db)

lemma run_predictions:
  "ai_predictions_enhanced (snd (runPredictionValidation d now))
     = map (fold (annotate now) (validation_query d now)) (ai_predictions_enhanced d)"
  by (simp add: runPredictionValidation_def Let_def split_beta fold_validate_db)

lemma run_accuracy:
  "prediction_accuracy (snd (runPredictionValidation d now))
     = prediction_accuracy d @ map (accuracy_of now) (validation_query d now)"
  by (simp add: runPredictionValidation_def Let_def split_beta fold_validate_db)

lemma accuracy_stats_cong:
  "prediction_accuracy d = prediction_accuracy d' \<Longrightarrow> accuracy_stats d now = accuracy_stats d' now"
  by (simp add: accuracy_stats_def)

lemma run_stats:
  "stats (fst (runPredictionValidation d now))
     = accuracy_stats (snd (runPredictionValidation d now)) now"
proof -
  have "stats (fst (runPredictionValidation d now))
          = accuracy_stats (fst (fold (validate_step now) (validation_query d now)
                                   (d, \<lparr>n_validated = 0, n_correct = 0, n_incorrect = 0\<rparr>))) now"
    by (simp add: runPredictionValidation_def Let_def split_beta)
  also have "\<dots> = accuracy_stats (snd (runPredictionValidation d now)) now"
    by (rule accuracy_stats_cong)
      (simp add: runPredictionValidation_def Let_def split_beta)
  finally show ?thesis .
qed

lemma run_accuracy_pct:
  "accuracy_pct (fst (runPredictionValidation d now))
     = (if st_total (stats (fst (runPredictionValidation d now))) > 0
        then toFixed 2
               (of_nat (case st_correct (stats (fst (runPredictionValidation d now))) of
                          None \<Rightarrow> 0 | Some k \<Rightarrow> k)
                / of_nat (st_total (stats (fst (runPredictionValidation d now)))) * 100)
        else 0)"
  by (simp add: runPredictionValidation_def Let_def split_beta)

lemma run_on_nothing:
  assumes "validation_query d now = []"
  shows "validated (fst (runPredictionValidation d now)) = 0"
    and "correct (fst (runPredictionValidation d now)) = 0"
    and "incorrect (fst (runPredictionValidation d now)) = 0"
    and "ai_predictions_enhanced (snd (runPredictionValidation d now))
           = ai_predictions_enhanced d"
    and "prediction_accuracy (snd (runPredictionValidation d now)) = prediction_accuracy d"
  using assms by (simp_all add: runPredictionValidation_def Let_def)

lemma annotate_hit:
  "p_id r = p_id (fst pg) \<Longrightarrow>
   p_actual_outcome (annotate now pg r) = actualWinner (fst pg) (snd pg)"
  by (simp add: annotate_def)

lemma annotate_miss: "p_id r \<noteq> p_id (fst pg) \<Longrightarrow> annotate now pg r = r"
  by (simp add: annotate_def)

lemma fold_annotate_fields:
  "p_id (fold (annotate now) rows r) = p_id r"
  "p_game_id (fold (annotate now) rows r) = p_game_id r"
  "p_created_at (fold (annotate now) rows r) = p_created_at r"
  by (induction rows arbitrary: r) (simp_all add: annotate_fields)

lemma fold_annotate_other:
  "p_id r \<notin> p_id ` fst ` set rows \<Longrightarrow> fold (annotate now) rows r = r"
  by (induction rows arbitrary: r) (auto simp: annotate_miss)

lemma fold_annotate_outcome:
  assumes "p_id r \<in> p_id ` fst ` set rows"
    and "\<forall>pg \<in> set rows. actualWinner (fst pg) (snd pg) \<noteq> None"
  shows "p_actual_outcome (fold (annotate now) rows r) \<noteq> None"
  using assms
proof (induction rows arbitrary: r rule: rev_induct)
  case Nil
  then show ?case by simp
next
  case (snoc pg rows)
  show ?case
  proof (cases "p_id r = p_id (fst pg)")
    case True
    then have "p_id (fold (annotate now) rows r) = p_id (fst pg)"
      by (simp add: fold_annotate_fields)
    then show ?thesis
      using snoc.prems(2) by (simp add: annotate_hit)
  next
    case False
    then have "p_id r \<in> p_id ` fst ` set rows"
      using snoc.prems(1) by auto
    then have "p_actual_outcome (fold (annotate now) rows r) \<noteq> None"
      using snoc.IH snoc.prems(2) by simp
    moreover have "p_id (fold (annotate now) rows r) \<noteq> p_id (fst pg)"
      using False by (simp add: fold_annotate_fields)
    ultimately show ?thesis
      by (simp add: annotate_miss)
  qed
qed

lemma pending_rows_iff:
  "(p, g) \<in> set (pending_rows d now)
     \<longleftrightarrow> p \<in> set (ai_predictions_enhanced d) \<and> g \<in> set (games d) \<and> needs_validation now p g"
  by (auto simp: pending_rows_def)

lemma pending_rows_empty:
  "(\<forall>p \<in> set (ai_predictions_enhanced d). \<forall>g \<in> set (games d). \<not> needs_validation now p g)
   \<Longrightarrow> pending_rows d now = []"
  by (simp add: pending_rows_def filter_empty_conv)

lemma nothing_pending_after_run:
  assumes "length (pending_rows d now) \<le> 100"
    and "\<forall>pg \<in> set (pending_rows d now). actualWinner (fst pg) (snd pg) \<noteq> None"
  shows "pending_rows (snd (runPredictionValidation d now)) now = []"
proof (rule pending_rows_empty, intro ballI notI)
  fix p' g
  assume p': "p' \<in> set (ai_predictions_enhanced (snd (runPredictionValidation d now)))"
    and g: "g \<in> set (games (snd (runPredictionValidation d now)))"
    and need: "needs_validation now p' g"
  have q: "validation_query d now = pending_rows d now"
    using assms(1) by (simp add: validation_query_def)
  from p' obtain p where p: "p \<in> set (ai_predictions_enhanced d)"
    and p'_def: "p' = fold (annotate now) (pending_rows d now) p"
    unfolding run_predictions q by auto
  from g have g': "g \<in> set (games d)"
    by (simp add: run_games)
  show False
  proof (cases "p_id p \<in> p_id ` fst ` set (pending_rows d now)")
    case True
    then have "p_actual_outcome p' \<noteq> None"
      unfolding p'_def using assms(2) by (rule fold_annotate_outcome)
    then show False
      using need by (simp add: needs_validation_def)
  next
    case False
    then have "p' = p"
      unfolding p'_def by (rule fold_annotate_other)
    then have "(p, g) \<in> set (pending_rows d now)"
      using need p g' by (simp add: pending_rows_iff)
    then have "p_id p \<in> p_id ` fst ` set (pending_rows d now)"
      by force
    then show False
      using False by simp
  qed
qed


lemma open_db_pending:
  "pending_rows (open_db n away w h a) 0
     = map (\<lambda>i. (pending_prediction away w i, final_game h a)) [0 ..< n]"
proof -
  have "needs_validation 0 (pending_prediction away w i) (final_game h a)" for i
    by (simp add: needs_validation_def pending_prediction_def final_game_def days_def)
  then show ?thesis
    by (simp add: pending_rows_def open_db_def comp_def)
qed

lemma open_db_winner:
  "actualWinner (pending_prediction away w i) (final_game h a)
     = (if h > a then Some ''nba-bos'' else away)"
  by (simp add: actualWinner_def pending_prediction_def final_game_def to_num_def)

text \<open>
  C2, as stated: a second run over the same finished games validates no prediction and
  leaves the aggregate figures as they were. Two inputs refute it. With 101
  predictions waiting, the first run stops at the \<open>LIMIT\<close> of 100 and the second
  validates the one that was left. And a prediction whose winning side has no team id
  in the row (the away id is \<open>NULL\<close> and the away team won) gets \<open>NULL\<close> as its
  \<open>actual_outcome\<close>, is selected again, and is counted twice in
  \<open>prediction_accuracy\<close>.
\<close>

theorem second_run_validates_again:
  "validated (fst (runPredictionValidation (open_db 101 (Some ''nba-lal'') ''nba-bos'' 110 101) 0))
     = 100
   \<and> validated
        (fst (runPredictionValidation
                (snd (runPredictionValidation
                        (open_db 101 (Some ''nba-lal'') ''nba-bos'' 110 101) 0)) 0)) = 1
   \<and> validated (fst (runPredictionValidation (open_db 1 None ''nba-bos'' 101 110) 0)) = 1
   \<and> validated
        (fst (runPredictionValidation
                (snd (runPredictionValidation (open_db 1 None ''nba-bos'' 101 110) 0)) 0)) = 1
   \<and> st_total (stats (fst (runPredictionValidation (open_db 1 None ''nba-bos'' 101 110) 0))) = 1
   \<and> st_total
        (stats (fst (runPredictionValidation
                       (snd (runPredictionValidation (open_db 1 None ''nba-bos'' 101 110) 0)) 0)))
       = 2"
proof -
  let ?D = "open_db 101 (Some ''nba-lal'') ''nba-bos'' 110 101"
  let ?pp = "pending_prediction (Some ''nba-lal'') ''nba-bos''"
  let ?fg = "final_game 110 101"
  let ?rows = "map (\<lambda>i. (?pp i, ?fg)) [0 ..< 100]"
  let ?D1 = "snd (runPredictionValidation ?D 0)"
  have q: "validation_query ?D 0 = ?rows"
    by (simp add: validation_query_def open_db_pending take_map)
  have v1: "validated (fst (runPredictionValidation ?D 0)) = 100"
    by (simp add: run_validated q)
  have ids: "p_id ` fst ` set ?rows = {0 ..< 100}"
    by (auto simp: pending_prediction_def image_iff)
  have gone: "\<not> needs_validation 0 (fold (annotate 0) ?rows (?pp i)) ?fg" if "i < 100" for i
  proof -
    have "p_id (?pp i) \<in> p_id ` fst ` set ?rows"
      unfolding ids using that by (simp add: pending_prediction_def)
    moreover have "\<forall>pg \<in> set ?rows. actualWinner (fst pg) (snd pg) \<noteq> None"
      by (auto simp: open_db_winner)
    ultimately have "p_actual_outcome (fold (annotate 0) ?rows (?pp i)) \<noteq> None"
      by (rule fold_annotate_outcome)
    then show ?thesis
      by (simp add: needs_validation_def)
  qed
  have "p_id (?pp 100) \<notin> p_id ` fst ` set ?rows"
    unfolding ids by (simp add: pending_prediction_def)
  then have left: "fold (annotate 0) ?rows (?pp 100) = ?pp 100"
    by (rule fold_annotate_other)
  have need: "needs_validation 0 (?pp 100) ?fg"
    by (simp add: needs_validation_def pending_prediction_def final_game_def days_def)
  have "[0 ..< Suc 100] = [0 ..< 100] @ [100::nat]"
    by (rule upt_Suc_append) simp
  then have sp: "[0 ..< 101] = [0 ..< 100] @ [100::nat]"
    by simp
  have "pending_rows ?D1 0 = [(?pp 100, ?fg)]"
    unfolding pending_rows_def run_games run_predictions q
    by (simp add: open_db_def sp left need gone)
  then have "validation_query ?D1 0 = [(?pp 100, ?fg)]"
    by (simp add: validation_query_def)
  then have v2: "validated (fst (runPredictionValidation ?D1 0)) = 1"
    by (simp add: run_validated)
  let ?E = "open_db 1 None ''nba-bos'' 101 110"
  let ?qq = "pending_prediction None ''nba-bos''"
  let ?fh = "final_game 101 110"
  have qe: "validation_query ?E 0 = [(?qq 0, ?fh)]"
    by (simp add: validation_query_def open_db_pending)
  have stay: "annotate 0 (?qq 0, ?fh) (?qq 0) = (?qq 0)\<lparr>p_was_correct := Some 0,
                 p_margin_of_error := Some 16, p_validated_at := Some 0\<rparr>"
    by (simp add: annotate_def actualWinner_def wasCorrect_def marginOfError_def to_num_def
          pending_prediction_def final_game_def Let_def)
  have e1: "validated (fst (runPredictionValidation ?E 0)) = 1"
    unfolding run_validated qe by simp
  have pe: "ai_predictions_enhanced (snd (runPredictionValidation ?E 0))
              = [(?qq 0)\<lparr>p_was_correct := Some 0, p_margin_of_error := Some 16,
                          p_validated_at := Some 0\<rparr>]"
    unfolding run_predictions qe by (simp add: open_db_def stay)
  have "pending_rows (snd (runPredictionValidation ?E 0)) 0
          = [((?qq 0)\<lparr>p_was_correct := Some 0, p_margin_of_error := Some 16,
                        p_validated_at := Some 0\<rparr>, ?fh)]"
    unfolding pending_rows_def run_games pe
    by (simp add: open_db_def needs_validation_def pending_prediction_def final_game_def
          days_def)
  then have qe2: "validation_query (snd (runPredictionValidation ?E 0)) 0
          = [((?qq 0)\<lparr>p_was_correct := Some 0, p_margin_of_error := Some 16,
                        p_validated_at := Some 0\<rparr>, ?fh)]"
    by (simp add: validation_query_def)
  then have e2: "validated
        (fst (runPredictionValidation (snd (runPredictionValidation ?E 0)) 0)) = 1"
    by (simp add: run_validated)
  have t: "st_total (accuracy_stats x 0)
             = length (filter (\<lambda>a. a_created_at a \<ge> 0 - days 7) (prediction_accuracy x))" for x
    by (simp add: accuracy_stats_def Let_def)
  have s1: "st_total (stats (fst (runPredictionValidation ?E 0))) = 1"
    unfolding run_stats t run_accuracy qe
    by (simp add: open_db_def accuracy_of_def days_def)
  have s2: "st_total (stats (fst (runPredictionValidation
                       (snd (runPredictionValidation ?E 0)) 0))) = 2"
    unfolding run_stats t run_accuracy qe qe2
    by (simp add: open_db_def accuracy_of_def days_def)
  from v1 v2 e1 e2 s1 s2 show ?thesis
    by simp
qed

text \<open>
  C2, amended: if the predictions waiting for validation fit into one batch (at most
  100 rows) and each of them gets a winner that is not \<open>NULL\<close>, then a second run at
  the same time validates nothing, counts nothing as correct or incorrect, leaves the
  predictions and the accuracy rows as the first run left them, and reports the same
  seven-day figures and the same accuracy percentage as the first run.
\<close>

theorem second_run_validates_nothing:
  assumes "length (pending_rows d now) \<le> 100"
    and "\<forall>pg \<in> set (pending_rows d now). actualWinner (fst pg) (snd pg) \<noteq> None"
  shows "validated (fst (runPredictionValidation (snd (runPredictionValidation d now)) now)) = 0
    \<and> correct (fst (runPredictionValidation (snd (runPredictionValidation d now)) now)) = 0
    \<and> incorrect (fst (runPredictionValidation (snd (runPredictionValidation d now)) now)) = 0
    \<and> ai_predictions_enhanced
         (snd (runPredictionValidation (snd (runPredictionValidation d now)) now))
        = ai_predictions_enhanced (snd (runPredictionValidation d now))
    \<and> prediction_accuracy
         (snd (runPredictionValidation (snd (runPredictionValidation d now)) now))
        = prediction_accuracy (snd (runPredictionValidation d now))
    \<and> stats (fst (runPredictionValidation (snd (runPredictionValidation d now)) now))
        = stats (fst (runPredictionValidation d now))
    \<and> accuracy_pct (fst (runPredictionValidation (snd (runPredictionValidation d now)) now))
        = accuracy_pct (fst (runPredictionValidation d now))"
proof -
  define d1 where "d1 = snd (runPredictionValidation d now)"
  have "pending_rows d1 now = []"
    unfolding d1_def using assms by (rule nothing_pending_after_run)
  then have q: "validation_query d1 now = []"
    by (simp add: validation_query_def)
  note n = run_on_nothing [OF q]
  have "stats (fst (runPredictionValidation d1 now))
          = accuracy_stats (snd (runPredictionValidation d1 now)) now"
    by (rule run_stats)
  also have "\<dots> = accuracy_stats d1 now"
    by (rule accuracy_stats_cong) (rule n(5))
  also have "\<dots> = stats (fst (runPredictionValidation d now))"
    unfolding d1_def by (rule run_stats [symmetric])
  finally have st: "stats (fst (runPredictionValidation d1 now))
                      = stats (fst (runPredictionValidation d now))" .
  have pct: "accuracy_pct (fst (runPredictionValidation d1 now))
               = accuracy_pct (fst (runPredictionValidation d now))"
    unfolding run_accuracy_pct [of d1] run_accuracy_pct [of d] st ..
  from n st pct show ?thesis
    unfolding d1_def by simp
qed

theorem second_run_validates_nothing_witness:
  "validated (fst (runPredictionValidation (open_db 3 (Some ''nba-lal'') ''nba-bos'' 110 101) 0)) = 3
   \<and> validated
        (fst (runPredictionValidation
                (snd (runPredictionValidation
                        (open_db 3 (Some ''nba-lal'') ''nba-bos'' 110 101) 0)) 0)) = 0
   \<and> stats (fst (runPredictionValidation
                   (snd (runPredictionValidation
                           (open_db 3 (Some ''nba-lal'') ''nba-bos'' 110 101) 0)) 0))
       = stats (fst (runPredictionValidation (open_db 3 (Some ''nba-lal'') ''nba-bos'' 110 101) 0))"
proof -
  let ?D = "open_db 3 (Some ''nba-lal'') ''nba-bos'' 110 101"
  have h1: "length (pending_rows ?D 0) \<le> 100"
    by (simp add: open_db_pending)
  have h2: "\<forall>pg \<in> set (pending_rows ?D 0). actualWinner (fst pg) (snd pg) \<noteq> None"
    by (auto simp: open_db_pending open_db_winner)
  have v: "validated (fst (runPredictionValidation ?D 0)) = 3"
    by (simp add: run_validated validation_query_def open_db_pending)
  from second_run_validates_nothing [OF h1 h2] v show ?thesis
    by simp
qed


end
